theory Spec2Isabelle
  imports Complex_Main
begin

section \<open>JavaScript strings and values used by the page and the route\<close>

text \<open>
  Strings are modelled as \<^typ>\<open>string\<close>, one \<^typ>\<open>char\<close> per code unit. The labels, messages
  and user-agent fragments the program inspects are ASCII; \<open>toLowerCase\<close> maps the letters
  \<open>A\<close> to \<open>Z\<close> to \<open>a\<close> to \<open>z\<close> and leaves every other code unit as it is.
\<close>

definition toLowerChar :: "char \<Rightarrow> char" where
  "toLowerChar c =
     (case map_of (zip ''ABCDEFGHIJKLMNOPQRSTUVWXYZ'' ''abcdefghijklmnopqrstuvwxyz'') c of
        Some l \<Rightarrow> l
      | None \<Rightarrow> c)"

definition toLowerCase :: "string \<Rightarrow> string" where
  "toLowerCase s = map toLowerChar s"

text \<open>\<open>String.prototype.includes\<close>: does \<open>pat\<close> occur in \<open>s\<close> at some position?\<close>

fun str_includes :: "string \<Rightarrow> string \<Rightarrow> bool" where
  "str_includes [] pat = (pat = [])"
| "str_includes (c # cs) pat = (take (length pat) (c # cs) = pat \<or> str_includes cs pat)"

text \<open>A non-negative integer inside a template literal: its decimal digits.\<close>

fun string_of_nat :: "nat \<Rightarrow> string" where
  "string_of_nat n =
     (if n < 10 then [''0123456789'' ! n]
      else string_of_nat (n div 10) @ [''0123456789'' ! (n mod 10)])"

declare string_of_nat.simps [simp del]

text \<open>
  A thrown value, as the \<open>catch\<close> blocks read it: only its \<open>message\<close> is inspected, and it may
  be missing.
\<close>

datatype js_error = JsError (err_message: "string option")

text \<open>\<open>x || fallback\<close> on an optional string: a missing or empty string is falsy.\<close>

definition or_else :: "string option \<Rightarrow> string \<Rightarrow> string" where
  "or_else x fallback = (case x of None \<Rightarrow> fallback | Some m \<Rightarrow> if m = [] then fallback else m)"

datatype json =
    JNull
  | JBool bool
  | JNum rat
  | JStr string
  | JArr "json list"
  | JObj "(string \<times> json) list"

section \<open>The proxy route (\<open>app/api/model/route.ts\<close>)\<close>

record js_file =
  file_name :: string
  file_type :: string
  file_bytes :: string

datatype form_value = FieldText string | FieldFile js_file

type_synonym form_data = "(string \<times> form_value) list"

record http_request =
  content_type :: string
  raw_body :: string

record fetch_request =
  fetch_url :: string
  fetch_method :: string
  fetch_body :: form_data

record upstream_response =
  up_status :: nat
  up_json :: "js_error + json"

record next_response =
  resp_status :: nat
  resp_body :: json

text \<open>
  The platform the handler runs on is a parameter: how \<open>request.formData()\<close> parses a request
  (or throws), what \<open>fetch\<close> answers to a request (or throws; the answer carries the outcome of
  its \<open>json()\<close>), the bytes \<open>fetch\<close> writes for a \<open>FormData\<close> body, and the exception that
  building a response throws for a status it does not accept.
\<close>

record runtime =
  formData :: "http_request \<Rightarrow> js_error + form_data"
  fetch :: "fetch_request \<Rightarrow> js_error + upstream_response"
  encodeFormData :: "form_data \<Rightarrow> string"
  responseInitError :: "nat \<Rightarrow> js_error"

definition UPSTREAM_URL :: string where
  "UPSTREAM_URL = ''https://welding-defects-production.up.railway.app/predict''"

text \<open>\<open>response.ok\<close>: the status is in the range 200 to 299.\<close>

definition response_ok :: "upstream_response \<Rightarrow> bool" where
  "response_ok r = (200 \<le> up_status r \<and> up_status r \<le> 299)"

text \<open>A null body status: a response with such a status cannot carry a body.\<close>

definition null_body_status :: "nat \<Rightarrow> bool" where
  "null_body_status st = (st = 101 \<or> st = 103 \<or> st = 204 \<or> st = 205 \<or> st = 304)"

text \<open>
  \<open>NextResponse.json(body, { status })\<close>; the status is 200 when none is given. The response
  is built by \<open>Response.json\<close>, which throws a \<open>RangeError\<close> for a status outside 200 to 599
  and a \<open>TypeError\<close> for a null body status, the body being present.
\<close>

definition NextResponse_json :: "runtime \<Rightarrow> json \<Rightarrow> nat \<Rightarrow> js_error + next_response" where
  "NextResponse_json rt b st =
     (if st < 200 \<or> 599 < st \<or> null_body_status st then Inl (responseInitError rt st)
      else Inr \<lparr>resp_status = st, resp_body = b\<rparr>)"

definition upstream_call :: "form_data \<Rightarrow> fetch_request" where
  "upstream_call fd = \<lparr>fetch_url = UPSTREAM_URL, fetch_method = ''POST'', fetch_body = fd\<rparr>"

definition status_error_body :: "nat \<Rightarrow> json" where
  "status_error_body st = JObj [(''error'', JStr (''API responded with status: '' @ string_of_nat st))]"

definition caught_error_body :: "js_error \<Rightarrow> json" where
  "caught_error_body e = JObj [(''error'', JStr (or_else (err_message e) ''Internal server error''))]"

text \<open>
  The body of the \<open>try\<close> block. The result pairs the \<open>fetch\<close> calls issued, in order, with
  either the exception that leaves the block (\<open>Inl\<close>) or the response it returns.
\<close>

definition POST_try :: "runtime \<Rightarrow> http_request \<Rightarrow> fetch_request list \<times> (js_error + next_response)" where
  "POST_try rt request =
     (case formData rt request of
        Inl e \<Rightarrow> ([], Inl e)
      | Inr fd \<Rightarrow>
          (case fetch rt (upstream_call fd) of
             Inl e \<Rightarrow> ([upstream_call fd], Inl e)
           | Inr response \<Rightarrow>
               if \<not> response_ok response
               then ([upstream_call fd],
                     NextResponse_json rt (status_error_body (up_status response)) (up_status response))
               else (case up_json response of
                       Inl e \<Rightarrow> ([upstream_call fd], Inl e)
                     | Inr data \<Rightarrow> ([upstream_call fd], NextResponse_json rt data 200))))"

text \<open>
  The handler: the \<open>try\<close> block, and the \<open>catch\<close> that answers an exception with a 500. An
  \<open>Inl\<close> in the result would be an exception that leaves the handler.
\<close>

definition POST :: "runtime \<Rightarrow> http_request \<Rightarrow> fetch_request list \<times> (js_error + next_response)" where
  "POST rt request =
     (case POST_try rt request of
        (calls, Inl error) \<Rightarrow> (calls, NextResponse_json rt (caught_error_body error) 500)
      | (calls, Inr r) \<Rightarrow> (calls, Inr r))"

text \<open>The bytes that reach the upstream service for a request, when a call is made.\<close>

definition forwarded_bytes :: "runtime \<Rightarrow> http_request \<Rightarrow> string list" where
  "forwarded_bytes rt request = map (\<lambda>c. encodeFormData rt (fetch_body c)) (fst (POST rt request))"

text \<open>
  A sample platform and two sample requests that carry the same file between different
  multipart boundaries. The platform parses both to the same form data and writes a form with
  a boundary of its own.
\<close>

definition crlf :: string where
  "crlf = [CHR 0x0D, CHR 0x0A]"

definition multipart_body :: "string \<Rightarrow> string" where
  "multipart_body boundary =
     ''--'' @ boundary @ crlf @
     ''Content-Disposition: form-data; name=\"file\"; filename=\"weld.jpg\"'' @ crlf @
     ''Content-Type: image/jpeg'' @ crlf @ crlf @
     ''JPEGDATA'' @ crlf @
     ''--'' @ boundary @ ''--'' @ crlf"

definition sample_request :: "string \<Rightarrow> http_request" where
  "sample_request boundary =
     \<lparr>content_type = ''multipart/form-data; boundary='' @ boundary,
      raw_body = multipart_body boundary\<rparr>"

definition sample_form :: form_data where
  "sample_form =
     [(''file'', FieldFile \<lparr>file_name = ''weld.jpg'', file_type = ''image/jpeg'', file_bytes = ''JPEGDATA''\<rparr>)]"

definition sample_runtime :: "js_error + upstream_response \<Rightarrow> runtime" where
  "sample_runtime answer =
     \<lparr>formData = (\<lambda>r. if raw_body r = multipart_body ''AaB03x'' \<or> raw_body r = multipart_body ''XyZ''
                       then Inr sample_form
                       else Inl (JsError (Some ''Failed to parse body as FormData.''))),
      fetch = (\<lambda>c. answer),
      encodeFormData = (\<lambda>fd. if fd = sample_form then multipart_body ''formdata-undici-0'' else []),
      responseInitError =
        (\<lambda>st. JsError (Some (if st < 200 \<or> 599 < st
                              then ''init[\"status\"] must be in the range of 200 to 599, inclusive.''
                              else ''Invalid response status code '' @ string_of_nat st)))\<rparr>"

section \<open>The inspection page (\<open>app/page.tsx\<close>)\<close>

subsection \<open>Data\<close>

record image_dimensions =
  width :: nat
  height :: nat
  naturalWidth :: nat
  naturalHeight :: nat

text \<open>The field \<open>class\<close> of a prediction is named \<open>pred_class\<close> here.\<close>

record prediction =
  bbox :: "rat \<times> rat \<times> rat \<times> rat"
  pred_class :: string
  confidence :: rat

datatype facing_mode = User | Environment

text \<open>
  The \<open>video\<close> constraint of a \<open>getUserMedia\<close> call: \<open>{ facingMode: m }\<close> or
  \<open>{ facingMode: { ideal: m } }\<close>.
\<close>

datatype video_constraints = Facing facing_mode | FacingIdeal facing_mode

text \<open>
  A media stream names its tracks; which of all tracks are live is kept in the page's track
  store, so that stopping a track is visible after the stream has been detached. The stream
  also records which camera the device opened for it.
\<close>

record media_stream =
  stream_tracks :: "nat list"
  stream_facing :: facing_mode

record video_element =
  srcObject :: "media_stream option"

text \<open>
  The component's state variables, the \<open>videoRef\<close> reference (\<open>None\<close> while no video element
  is mounted), the browser's set of live media tracks and its registered object URLs. The
  \<open>error\<close> variable holds whatever \<open>setError\<close> was given: a string, or the value a response
  carried under \<open>error\<close>.
\<close>

record page =
  imageURL :: "string option"
  predictions :: "prediction list"
  imageSize :: "image_dimensions option"
  isLoading :: bool
  error :: "json option"
  isCameraActive :: bool
  scanAnimation :: bool
  cameraFacingMode :: facing_mode
  videoRef :: "video_element option"
  liveTracks :: "nat set"
  objectURLs :: "string set"

subsection \<open>Asynchronous handlers\<close>

text \<open>
  An \<open>async\<close> handler runs until it finishes or reaches an \<open>await\<close>. At an \<open>await\<close> it has
  produced a state, has issued a request, and holds a continuation that is given the outcome
  and the state current when it resumes. Values the handler read from its closure before the
  \<open>await\<close> stay as they were; the setters and \<open>videoRef.current\<close> act on the current state.
\<close>

datatype ('q, 'r, 's) task =
    Finished 's
  | Awaiting 's 'q "'r \<Rightarrow> 's \<Rightarrow> ('q, 'r, 's) task"

text \<open>The state and the request at the first \<open>await\<close>, if the handler reaches one.\<close>

fun pending :: "('q, 'r, 's) task \<Rightarrow> ('s \<times> 'q) option" where
  "pending (Finished s) = None"
| "pending (Awaiting s q k) = Some (s, q)"

text \<open>The state a handler has produced so far: at its end, or at the \<open>await\<close> it waits in.\<close>

fun produced :: "('q, 'r, 's) task \<Rightarrow> 's" where
  "produced (Finished s) = s"
| "produced (Awaiting s q k) = s"

text \<open>Resuming a suspended handler with an outcome, in a given current state.\<close>

fun resume :: "('q, 'r, 's) task \<Rightarrow> 'r \<Rightarrow> 's \<Rightarrow> ('q, 'r, 's) task" where
  "resume (Finished s) r now = Finished s"
| "resume (Awaiting s q k) r now = k r now"

text \<open>
  Running a handler to its end with nothing else in between: each \<open>await\<close> takes the next
  outcome of the list and resumes in the state it was suspended in. The result is \<open>None\<close> when
  the outcomes run out before the handler finishes.
\<close>

fun run :: "'r list \<Rightarrow> ('q, 'r, 's) task \<Rightarrow> 's option" where
  "run rs (Finished s) = Some s"
| "run [] (Awaiting s q k) = None"
| "run (r # rs) (Awaiting s q k) = run rs (k r s)"

text \<open>The requests a run issues, in order.\<close>

fun requests :: "'r list \<Rightarrow> ('q, 'r, 's) task \<Rightarrow> 'q list" where
  "requests rs (Finished s) = []"
| "requests [] (Awaiting s q k) = [q]"
| "requests (r # rs) (Awaiting s q k) = q # requests rs (k r s)"

subsection \<open>The analysis routine\<close>

record axios_request =
  post_url :: string
  post_form :: form_data
  post_content_type :: string

text \<open>
  A rejected \<open>axios.post\<close>: \<open>err.response?.data\<close> (absent when no response arrived) and
  \<open>err.message\<close>. A resolved one: \<open>res.data.predictions\<close>, absent or a list.
\<close>

record axios_error =
  response_data :: "json option"
  axios_message :: "string option"

datatype axios_result = Resolved "prediction list option" | Rejected axios_error

text \<open>
  \<open>data?.error\<close>: the value stored under \<open>error\<close> when \<open>data\<close> is an object that has such a
  key (for a repeated key the last entry counts); undefined for every other \<open>data\<close>.
\<close>

fun json_field :: "json \<Rightarrow> string \<Rightarrow> json option" where
  "json_field (JObj kvs) k = map_of (rev kvs) k"
| "json_field _ k = None"

text \<open>Truthiness of a JSON value, as \<open>||\<close> tests it.\<close>

fun js_truthy :: "json \<Rightarrow> bool" where
  "js_truthy JNull = False"
| "js_truthy (JBool b) = b"
| "js_truthy (JNum n) = (n \<noteq> 0)"
| "js_truthy (JStr m) = (m \<noteq> [])"
| "js_truthy (JArr vs) = True"
| "js_truthy (JObj kvs) = True"

text \<open>\<open>err.response?.data?.error || err.message || "Failed to analyze image"\<close>\<close>

definition failure_value :: "axios_error \<Rightarrow> json" where
  "failure_value err =
     (case (case response_data err of None \<Rightarrow> None | Some d \<Rightarrow> json_field d ''error'') of
        None \<Rightarrow> JStr (or_else (axios_message err) ''Failed to analyze image'')
      | Some v \<Rightarrow>
          if js_truthy v then v
          else JStr (or_else (axios_message err) ''Failed to analyze image''))"

text \<open>
  \<open>processImage\<close>; \<open>url\<close> is the object URL that \<open>URL.createObjectURL\<close> hands out for the
  file. The response body has the declared type \<open>{ predictions: Prediction[] }\<close>, with the
  field possibly absent. The timer that ends the scan animation a second later is
  \<open>scanAnimation_timeout\<close>.
\<close>

definition processImage :: "string \<Rightarrow> js_file \<Rightarrow> page \<Rightarrow> (axios_request, axios_result, page) task" where
  "processImage url f s =
     (let s1 = s\<lparr>objectURLs := insert url (objectURLs s),
                 imageURL := Some url,
                 predictions := [],
                 imageSize := None,
                 error := None,
                 isLoading := True,
                 scanAnimation := True\<rparr>;
          form = [(''file'', FieldFile f)]
      in Awaiting s1
           \<lparr>post_url = ''/api/model'', post_form = form, post_content_type = ''multipart/form-data''\<rparr>
           (\<lambda>res now.
              Finished
                ((case res of
                    Resolved ps \<Rightarrow> now\<lparr>predictions := (case ps of Some l \<Rightarrow> l | None \<Rightarrow> [])\<rparr>
                  | Rejected err \<Rightarrow> now\<lparr>error := Some (failure_value err)\<rparr>)
                 \<lparr>isLoading := False\<rparr>)))"

definition scanAnimation_timeout :: "page \<Rightarrow> page" where
  "scanAnimation_timeout s = s\<lparr>scanAnimation := False\<rparr>"

text \<open>\<open>if (imageURL)\<close>: a string state variable is truthy when present and not empty.\<close>

definition truthy :: "string option \<Rightarrow> bool" where
  "truthy x = (case x of None \<Rightarrow> False | Some v \<Rightarrow> v \<noteq> [])"

text \<open>\<open>handleFileUpload\<close>; \<open>chosen\<close> is \<open>e.target.files?.[0]\<close>.\<close>

definition handleFileUpload :: "string \<Rightarrow> js_file option \<Rightarrow> page \<Rightarrow> (axios_request, axios_result, page) task" where
  "handleFileUpload url chosen s =
     (case chosen of
        None \<Rightarrow> Finished s
      | Some f \<Rightarrow>
          processImage url f
            (if truthy (imageURL s) then s\<lparr>objectURLs := objectURLs s - {the (imageURL s)}\<rparr> else s))"

subsection \<open>The camera\<close>

text \<open>\<open>/iPhone|iPad|iPod|Android/i.test(navigator.userAgent)\<close>\<close>

definition isMobile :: "string \<Rightarrow> bool" where
  "isMobile userAgent =
     (let ua = toLowerCase userAgent
      in str_includes ua ''iphone'' \<or> str_includes ua ''ipad'' \<or> str_includes ua ''ipod''
         \<or> str_includes ua ''android'')"

type_synonym camera_task = "(video_constraints, js_error + media_stream, page) task"

text \<open>A stream that \<open>getUserMedia\<close> resolves with arrives with its tracks live.\<close>

definition deliver :: "media_stream \<Rightarrow> page \<Rightarrow> page" where
  "deliver stream s = s\<lparr>liveTracks := liveTracks s \<union> set (stream_tracks stream)\<rparr>"

text \<open>
  \<open>videoRef.current.srcObject = stream\<close>: \<open>None\<close> stands for the \<open>TypeError\<close> thrown when
  \<open>videoRef.current\<close> is null.
\<close>

definition assign_srcObject :: "media_stream \<Rightarrow> page \<Rightarrow> page option" where
  "assign_srcObject stream s =
     (case videoRef s of
        None \<Rightarrow> None
      | Some v \<Rightarrow> Some (s\<lparr>videoRef := Some (v\<lparr>srcObject := Some stream\<rparr>)\<rparr>))"

text \<open>
  The block that opens both \<open>switchCamera\<close> and \<open>stopCamera\<close>: when a video element is
  mounted and has a stream, stop each of the stream's tracks, then clear \<open>srcObject\<close>.
\<close>

definition stop_tracks :: "media_stream \<Rightarrow> nat set \<Rightarrow> nat set" where
  "stop_tracks stream live = fold (\<lambda>track l. l - {track}) (stream_tracks stream) live"

definition release_video :: "page \<Rightarrow> page" where
  "release_video s =
     (case videoRef s of
        None \<Rightarrow> s
      | Some v \<Rightarrow>
          (case srcObject v of
             None \<Rightarrow> s
           | Some stream \<Rightarrow>
               s\<lparr>liveTracks := stop_tracks stream (liveTracks s),
                 videoRef := Some (v\<lparr>srcObject := None\<rparr>)\<rparr>))"

definition stopCamera :: "page \<Rightarrow> page" where
  "stopCamera s = (release_video s)\<lparr>isCameraActive := False\<rparr>"

definition CAMERA_ERROR :: string where
  "CAMERA_ERROR =
     ''Could not access camera. Please check permissions and ensure your device has a camera.''"

text \<open>The \<open>catch\<close> block of \<open>startCamera\<close>, entered in state \<open>c\<close>.\<close>

definition startCamera_fallback :: "page \<Rightarrow> camera_task" where
  "startCamera_fallback c =
     Awaiting c (Facing User)
       (\<lambda>r now.
          case r of
            Inr fallbackStream \<Rightarrow>
              Finished (case assign_srcObject fallbackStream (deliver fallbackStream now) of
                          Some now' \<Rightarrow> now'
                        | None \<Rightarrow> deliver fallbackStream now)
          | Inl fallbackErr \<Rightarrow>
              Finished (now\<lparr>error := Some (JStr CAMERA_ERROR), isCameraActive := False\<rparr>))"

definition startCamera :: "string \<Rightarrow> page \<Rightarrow> camera_task" where
  "startCamera userAgent s =
     (let s1 = s\<lparr>isCameraActive := True\<rparr>
      in case videoRef s1 of
           None \<Rightarrow> Finished s1
         | Some v \<Rightarrow>
             Awaiting s1 (if isMobile userAgent then FacingIdeal Environment else Facing User)
               (\<lambda>r now.
                  case r of
                    Inr stream \<Rightarrow>
                      (case assign_srcObject stream (deliver stream now) of
                         Some now' \<Rightarrow> Finished now'
                       | None \<Rightarrow> startCamera_fallback (deliver stream now))
                  | Inl err \<Rightarrow> startCamera_fallback now))"

definition facing_name :: "facing_mode \<Rightarrow> string" where
  "facing_name m = (if m = User then ''front'' else ''back'')"

text \<open>
  The \<open>catch\<close> block of \<open>switchCamera\<close>, entered in state \<open>c\<close>; \<open>newMode\<close> and \<open>oldMode\<close> are the
  handler's \<open>newMode\<close> and the \<open>cameraFacingMode\<close> of its closure.
\<close>

definition switchCamera_fallback :: "facing_mode \<Rightarrow> facing_mode \<Rightarrow> page \<Rightarrow> camera_task" where
  "switchCamera_fallback newMode oldMode c =
     Awaiting (c\<lparr>error := Some (JStr (''Could not access '' @ facing_name newMode @ '' camera.''))\<rparr>)
       (Facing oldMode)
       (\<lambda>r now.
          case r of
            Inr fallbackStream \<Rightarrow>
              (case assign_srcObject fallbackStream (deliver fallbackStream now) of
                 Some now' \<Rightarrow> Finished now'
               | None \<Rightarrow> Finished ((deliver fallbackStream now)\<lparr>isCameraActive := False\<rparr>))
          | Inl fallbackErr \<Rightarrow> Finished (now\<lparr>isCameraActive := False\<rparr>))"

definition switchCamera :: "page \<Rightarrow> camera_task" where
  "switchCamera s =
     (let s1 = release_video s;
          newMode = (if cameraFacingMode s = User then Environment else User);
          s2 = s1\<lparr>cameraFacingMode := newMode\<rparr>
      in case videoRef s2 of
           None \<Rightarrow> Finished s2
         | Some v \<Rightarrow>
             Awaiting s2 (Facing newMode)
               (\<lambda>r now.
                  case r of
                    Inr stream \<Rightarrow>
                      (case assign_srcObject stream (deliver stream now) of
                         Some now' \<Rightarrow> Finished now'
                       | None \<Rightarrow> switchCamera_fallback newMode (cameraFacingMode s) (deliver stream now))
                  | Inl err \<Rightarrow> switchCamera_fallback newMode (cameraFacingMode s) now))"

text \<open>
  The callback \<open>capturePhoto\<close> gives to \<open>canvas.toBlob\<close>: with a blob it stops the camera and
  analyses the snapshot. \<open>capturePhoto\<close> itself reaches it only when the video element, the
  canvas and its 2d context exist.
\<close>

definition capture_callback :: "string \<Rightarrow> string option \<Rightarrow> page \<Rightarrow> (axios_request, axios_result, page) task" where
  "capture_callback url blob s =
     (case blob of
        None \<Rightarrow> Finished s
      | Some bytes \<Rightarrow>
          processImage url
            \<lparr>file_name = ''camera-capture.jpg'', file_type = ''image/jpeg'', file_bytes = bytes\<rparr>
            (stopCamera s))"

definition capturePhoto :: "string \<Rightarrow> bool \<Rightarrow> string option \<Rightarrow> page \<Rightarrow> (axios_request, axios_result, page) task" where
  "capturePhoto url canvas_ready blob s =
     (if videoRef s \<noteq> None \<and> canvas_ready then capture_callback url blob s else Finished s)"

subsection \<open>What is rendered\<close>

definition hasBadWeld :: "prediction list \<Rightarrow> bool" where
  "hasBadWeld preds = list_ex (\<lambda>pred. str_includes (toLowerCase (pred_class pred)) ''bad'') preds"

definition getOverallResult :: "prediction list \<Rightarrow> string option" where
  "getOverallResult preds =
     (if length preds = 0 then None
      else Some (if hasBadWeld preds then ''Defects Detected'' else ''No Defects''))"

text \<open>The results card is rendered under \<open>!isLoading && imageURL && !isCameraActive\<close>.\<close>

definition results_shown :: "page \<Rightarrow> bool" where
  "results_shown s = (\<not> isLoading s \<and> truthy (imageURL s) \<and> \<not> isCameraActive s)"

text \<open>\<open>const overallResult = getOverallResult()\<close>, computed on every render.\<close>

definition overallResult :: "page \<Rightarrow> string option" where
  "overallResult s = getOverallResult (predictions s)"

text \<open>
  The text of the verdict badge, \<open>overallResult && <Badge>{overallResult}</Badge>\<close> inside the
  results card; \<open>None\<close> when no badge is rendered.
\<close>

definition verdict_badge :: "page \<Rightarrow> string option" where
  "verdict_badge s = (if results_shown s \<and> truthy (overallResult s) then overallResult s else None)"

text \<open>The title of the camera card, rendered while \<open>isCameraActive\<close>.\<close>

definition facing_title :: "facing_mode \<Rightarrow> string" where
  "facing_title m = (if m = User then ''Front Camera'' else ''Back Camera'')"

definition camera_title :: "page \<Rightarrow> string option" where
  "camera_title s = (if isCameraActive s then Some (facing_title (cameraFacingMode s)) else None)"

text \<open>The stream attached to the mounted video element, if any.\<close>

definition attached_stream :: "page \<Rightarrow> media_stream option" where
  "attached_stream s = (case videoRef s of None \<Rightarrow> None | Some v \<Rightarrow> srcObject v)"

subsection \<open>The route behind \<open>axios.post\<close>\<close>

text \<open>
  With its default \<open>validateStatus\<close>, \<open>axios.post\<close> rejects every response whose status is not
  in the range 200 to 299; the error carries the response body and a message naming the status.
\<close>

definition axios_accepts :: "next_response \<Rightarrow> bool" where
  "axios_accepts r = (200 \<le> resp_status r \<and> resp_status r < 300)"

definition axios_reject :: "next_response \<Rightarrow> axios_error" where
  "axios_reject r =
     \<lparr>response_data = Some (resp_body r),
      axios_message = Some (''Request failed with status code '' @ string_of_nat (resp_status r))\<rparr>"

text \<open>Sample states and streams.\<close>

definition initial_page :: page where
  "initial_page =
     \<lparr>imageURL = None, predictions = [], imageSize = None, isLoading = False, error = None,
      isCameraActive = False, scanAnimation = False, cameraFacingMode = User, videoRef = None,
      liveTracks = {}, objectURLs = {}\<rparr>"

definition front_stream :: media_stream where
  "front_stream = \<lparr>stream_tracks = [1], stream_facing = User\<rparr>"

definition filming_page :: page where
  "filming_page =
     initial_page\<lparr>isCameraActive := True, videoRef := Some \<lparr>srcObject = Some front_stream\<rparr>,
                  liveTracks := {1}\<rparr>"

definition sample_file :: js_file where
  "sample_file = \<lparr>file_name = ''weld.jpg'', file_type = ''image/jpeg'', file_bytes = ''JPEGDATA''\<rparr>"

definition sample_prediction :: "string \<Rightarrow> prediction" where
  "sample_prediction label = \<lparr>bbox = (0, 0, 10, 10), pred_class = label, confidence = 92 / 100\<rparr>"

text \<open>
  Two uploads that overlap: the second starts while the first waits for its answer, then the
  first is answered with one prediction, then the second fails without a response.
\<close>

definition overlapping_uploads :: page where
  "overlapping_uploads =
     (let first = processImage ''blob:first'' sample_file initial_page;
          second = processImage ''blob:second'' sample_file (produced first);
          answered = resume first (Resolved (Some [sample_prediction ''Bad_Weld''])) (produced second);
          failed = resume second
                     (Rejected \<lparr>response_data = None, axios_message = Some ''Network Error''\<rparr>)
                     (produced answered)
      in produced failed)"


section \<open>Strings\<close>

lemma str_includes_iff: "str_includes s pat \<longleftrightarrow> (\<exists>u v. s = u @ pat @ v)"
proof (induction s)
  case Nil
  show ?case by auto
next
  case (Cons c cs)
  show ?case
  proof
    assume "str_includes (c # cs) pat"
    then consider "take (length pat) (c # cs) = pat" | "str_includes cs pat"
      by auto
    then show "\<exists>u v. c # cs = u @ pat @ v"
    proof cases
      case 1
      then have "c # cs = [] @ pat @ drop (length pat) (c # cs)"
        by (metis append_Nil append_take_drop_id)
      then show ?thesis by blast
    next
      case 2
      with Cons.IH obtain u v where "cs = u @ pat @ v" by blast
      then have "c # cs = (c # u) @ pat @ v" by simp
      then show ?thesis by blast
    qed
  next
    assume "\<exists>u v. c # cs = u @ pat @ v"
    then obtain u v where uv: "c # cs = u @ pat @ v" by blast
    show "str_includes (c # cs) pat"
    proof (cases u)
      case Nil
      with uv have "take (length pat) (c # cs) = pat" by simp
      then show ?thesis by simp
    next
      case (Cons a u')
      with uv have "cs = u' @ pat @ v" by simp
      with Cons.IH have "str_includes cs pat" by blast
      then show ?thesis by simp
    qed
  qed
qed

lemma str_includes_suffix: "str_includes (p @ x) x"
  using str_includes_iff [of "p @ x" x] by (metis append_Nil2)

lemma or_else_nonempty: "fallback \<noteq> [] \<Longrightarrow> or_else x fallback \<noteq> []"
  by (simp add: or_else_def split: option.splits)


section \<open>Properties of the proxy route\<close>

lemma NextResponse_json_accepted:
  "200 \<le> st \<Longrightarrow> st \<le> 599 \<Longrightarrow> \<not> null_body_status st \<Longrightarrow>
   NextResponse_json rt b st = Inr \<lparr>resp_status = st, resp_body = b\<rparr>"
  by (simp add: NextResponse_json_def)

lemma NextResponse_json_refused:
  "st < 200 \<or> 599 < st \<or> null_body_status st \<Longrightarrow>
   NextResponse_json rt b st = Inl (responseInitError rt st)"
  by (simp add: NextResponse_json_def)

lemma NextResponse_json_200: "NextResponse_json rt b 200 = Inr \<lparr>resp_status = 200, resp_body = b\<rparr>"
  by (simp add: NextResponse_json_def null_body_status_def)

lemma NextResponse_json_500: "NextResponse_json rt b 500 = Inr \<lparr>resp_status = 500, resp_body = b\<rparr>"
  by (simp add: NextResponse_json_def null_body_status_def)

text \<open>Among the statuses that are not ok and lie in 200 to 599, only 304 is a null body status.\<close>

lemma not_ok_null_body:
  "\<not> response_ok resp \<Longrightarrow> 200 \<le> up_status resp \<Longrightarrow>
   null_body_status (up_status resp) \<longleftrightarrow> up_status resp = 304"
  by (auto simp add: response_ok_def null_body_status_def)

lemma POST_formData_throws:
  "formData rt req = Inl e \<Longrightarrow>
   POST rt req = ([], Inr \<lparr>resp_status = 500, resp_body = caught_error_body e\<rparr>)"
  by (simp add: POST_def POST_try_def NextResponse_json_500)

lemma POST_fetch_throws:
  "formData rt req = Inr fd \<Longrightarrow> fetch rt (upstream_call fd) = Inl e \<Longrightarrow>
   POST rt req = ([upstream_call fd], Inr \<lparr>resp_status = 500, resp_body = caught_error_body e\<rparr>)"
  by (simp add: POST_def POST_try_def NextResponse_json_500)

lemma POST_not_ok:
  "formData rt req = Inr fd \<Longrightarrow> fetch rt (upstream_call fd) = Inr resp \<Longrightarrow> \<not> response_ok resp \<Longrightarrow>
   200 \<le> up_status resp \<Longrightarrow> up_status resp \<le> 599 \<Longrightarrow> up_status resp \<noteq> 304 \<Longrightarrow>
   POST rt req =
     ([upstream_call fd],
      Inr \<lparr>resp_status = up_status resp, resp_body = status_error_body (up_status resp)\<rparr>)"
  by (simp add: POST_def POST_try_def NextResponse_json_accepted not_ok_null_body)

lemma POST_not_ok_refused:
  "formData rt req = Inr fd \<Longrightarrow> fetch rt (upstream_call fd) = Inr resp \<Longrightarrow> \<not> response_ok resp \<Longrightarrow>
   up_status resp < 200 \<or> 599 < up_status resp \<or> up_status resp = 304 \<Longrightarrow>
   POST rt req =
     ([upstream_call fd],
      Inr \<lparr>resp_status = 500,
           resp_body = caught_error_body (responseInitError rt (up_status resp))\<rparr>)"
proof -
  assume fd: "formData rt req = Inr fd" and resp: "fetch rt (upstream_call fd) = Inr resp"
    and nok: "\<not> response_ok resp"
    and st: "up_status resp < 200 \<or> 599 < up_status resp \<or> up_status resp = 304"
  from st have "up_status resp < 200 \<or> 599 < up_status resp \<or> null_body_status (up_status resp)"
    by (auto simp add: null_body_status_def)
  then have "NextResponse_json rt (status_error_body (up_status resp)) (up_status resp)
      = Inl (responseInitError rt (up_status resp))"
    by (rule NextResponse_json_refused)
  with fd resp nok show ?thesis
    by (simp add: POST_def POST_try_def NextResponse_json_500)
qed

lemma POST_json_throws:
  "formData rt req = Inr fd \<Longrightarrow> fetch rt (upstream_call fd) = Inr resp \<Longrightarrow> response_ok resp \<Longrightarrow>
   up_json resp = Inl e \<Longrightarrow>
   POST rt req = ([upstream_call fd], Inr \<lparr>resp_status = 500, resp_body = caught_error_body e\<rparr>)"
  by (simp add: POST_def POST_try_def NextResponse_json_500)

lemma POST_ok:
  "formData rt req = Inr fd \<Longrightarrow> fetch rt (upstream_call fd) = Inr resp \<Longrightarrow> response_ok resp \<Longrightarrow>
   up_json resp = Inr data \<Longrightarrow>
   POST rt req = ([upstream_call fd], Inr \<lparr>resp_status = 200, resp_body = data\<rparr>)"
  by (simp add: POST_def POST_try_def NextResponse_json_200)

text \<open>The handler always answers: no exception leaves it.\<close>

lemma POST_total: "\<exists>r. snd (POST rt req) = Inr r"
proof (cases "formData rt req")
  case (Inl e)
  then show ?thesis by (simp add: POST_formData_throws)
next
  case fd: (Inr fd)
  show ?thesis
  proof (cases "fetch rt (upstream_call fd)")
    case (Inl e)
    with fd show ?thesis by (simp add: POST_fetch_throws)
  next
    case resp: (Inr resp)
    show ?thesis
    proof (cases "response_ok resp")
      case True
      with fd resp show ?thesis
        by (cases "up_json resp") (simp_all add: POST_json_throws POST_ok)
    next
      case False
      show ?thesis
      proof (cases "up_status resp < 200 \<or> 599 < up_status resp \<or> up_status resp = 304")
        case True
        with fd resp False show ?thesis by (simp add: POST_not_ok_refused)
      next
        case False
        with fd resp \<open>\<not> response_ok resp\<close> show ?thesis by (simp add: POST_not_ok)
      qed
    qed
  qed
qed

text \<open>
  Claim C3, amended. When the upstream service answers with a non-success status from 300
  to 599 other than 304, the handler returns a JSON body with an \<open>error\<close> field under that
  same status. When it answers successfully and its body parses, the handler returns the
  parsed body unchanged (status 200). When an exception is raised during forwarding, by
  \<open>request.formData()\<close>, by \<open>fetch\<close>, by \<open>response.json()\<close>, or by \<open>NextResponse.json\<close> for a
  non-success status it does not accept (below 200, above 599, or 304), the handler returns
  status 500 with a JSON body whose \<open>error\<close> field is a non-empty message. The handler always
  returns a response: no exception leaves it.
\<close>

theorem POST_relays_or_normalises:
  "(formData rt req = Inr fd \<and> fetch rt (upstream_call fd) = Inr resp \<and> \<not> response_ok resp
      \<and> 200 \<le> up_status resp \<and> up_status resp \<le> 599 \<and> up_status resp \<noteq> 304 \<longrightarrow>
      snd (POST rt req) =
        Inr \<lparr>resp_status = up_status resp,
             resp_body = JObj [(''error'', JStr (''API responded with status: '' @ string_of_nat (up_status resp)))]\<rparr>)
   \<and> (formData rt req = Inr fd \<and> fetch rt (upstream_call fd) = Inr resp \<and> response_ok resp
        \<and> up_json resp = Inr data \<longrightarrow>
      snd (POST rt req) = Inr \<lparr>resp_status = 200, resp_body = data\<rparr>)
   \<and> (formData rt req = Inl e
        \<or> (formData rt req = Inr fd \<and> fetch rt (upstream_call fd) = Inl e)
        \<or> (formData rt req = Inr fd \<and> fetch rt (upstream_call fd) = Inr resp \<and> response_ok resp
            \<and> up_json resp = Inl e)
        \<or> (formData rt req = Inr fd \<and> fetch rt (upstream_call fd) = Inr resp \<and> \<not> response_ok resp
            \<and> (up_status resp < 200 \<or> 599 < up_status resp \<or> up_status resp = 304)
            \<and> e = responseInitError rt (up_status resp)) \<longrightarrow>
      snd (POST rt req) =
        Inr \<lparr>resp_status = 500,
             resp_body = JObj [(''error'', JStr (or_else (err_message e) ''Internal server error''))]\<rparr>
      \<and> or_else (err_message e) ''Internal server error'' \<noteq> [])
   \<and> (\<exists>r. snd (POST rt req) = Inr r)"
proof (intro conjI impI)
  assume "formData rt req = Inr fd \<and> fetch rt (upstream_call fd) = Inr resp \<and> \<not> response_ok resp
      \<and> 200 \<le> up_status resp \<and> up_status resp \<le> 599 \<and> up_status resp \<noteq> 304"
  then show "snd (POST rt req) =
        Inr \<lparr>resp_status = up_status resp,
             resp_body = JObj [(''error'', JStr (''API responded with status: '' @ string_of_nat (up_status resp)))]\<rparr>"
    by (simp add: POST_not_ok [where fd = fd and resp = resp] status_error_body_def)
next
  assume "formData rt req = Inr fd \<and> fetch rt (upstream_call fd) = Inr resp \<and> response_ok resp
        \<and> up_json resp = Inr data"
  then show "snd (POST rt req) = Inr \<lparr>resp_status = 200, resp_body = data\<rparr>"
    by (simp add: POST_ok [where fd = fd and resp = resp])
next
  assume thrown: "formData rt req = Inl e
        \<or> (formData rt req = Inr fd \<and> fetch rt (upstream_call fd) = Inl e)
        \<or> (formData rt req = Inr fd \<and> fetch rt (upstream_call fd) = Inr resp \<and> response_ok resp
            \<and> up_json resp = Inl e)
        \<or> (formData rt req = Inr fd \<and> fetch rt (upstream_call fd) = Inr resp \<and> \<not> response_ok resp
            \<and> (up_status resp < 200 \<or> 599 < up_status resp \<or> up_status resp = 304)
            \<and> e = responseInitError rt (up_status resp))"
  then consider
      (parse) "formData rt req = Inl e"
    | (fetch) "formData rt req = Inr fd" "fetch rt (upstream_call fd) = Inl e"
    | (json) "formData rt req = Inr fd" "fetch rt (upstream_call fd) = Inr resp" "response_ok resp"
        "up_json resp = Inl e"
    | (init) "formData rt req = Inr fd" "fetch rt (upstream_call fd) = Inr resp" "\<not> response_ok resp"
        "up_status resp < 200 \<or> 599 < up_status resp \<or> up_status resp = 304"
        "e = responseInitError rt (up_status resp)"
    by blast
  then have "snd (POST rt req) = Inr \<lparr>resp_status = 500, resp_body = caught_error_body e\<rparr>"
  proof cases
    case parse
    then show ?thesis by (simp add: POST_formData_throws)
  next
    case fetch
    then show ?thesis by (simp add: POST_fetch_throws)
  next
    case json
    then show ?thesis by (simp add: POST_json_throws)
  next
    case init
    from POST_not_ok_refused [OF init(1) init(2) init(3) init(4)] init(5)
    show ?thesis by simp
  qed
  then show "snd (POST rt req) =
        Inr \<lparr>resp_status = 500,
             resp_body = JObj [(''error'', JStr (or_else (err_message e) ''Internal server error''))]\<rparr>"
    by (simp add: caught_error_body_def)
  show "or_else (err_message e) ''Internal server error'' \<noteq> []"
    by (rule or_else_nonempty) simp
next
  show "\<exists>r. snd (POST rt req) = Inr r"
    by (rule POST_total)
qed

lemma string_of_nat_503: "string_of_nat 503 = ''503''"
  by (simp add: string_of_nat.simps)

lemma string_of_nat_304: "string_of_nat 304 = ''304''"
  by (simp add: string_of_nat.simps)

lemma sample_formData [simp]:
  "formData (sample_runtime a) (sample_request ''AaB03x'') = Inr sample_form"
  "formData (sample_runtime a) (sample_request ''XyZ'') = Inr sample_form"
  "fetch (sample_runtime a) c = a"
  by (simp_all add: sample_runtime_def sample_request_def)

lemma sample_encode:
  "encodeFormData (sample_runtime a) sample_form = multipart_body ''formdata-undici-0''"
  by (simp add: sample_runtime_def)

lemma sample_init_error:
  "responseInitError (sample_runtime a) 304 = JsError (Some ''Invalid response status code 304'')"
  "responseInitError (sample_runtime a) 600
     = JsError (Some ''init[\"status\"] must be in the range of 200 to 599, inclusive.'')"
  by (simp_all add: sample_runtime_def string_of_nat_304)

text \<open>
  The cases of C3 amended on the sample platform: an upstream 503, an upstream 200 with a
  JSON body, a \<open>fetch\<close> that throws, and an upstream 304.
\<close>

theorem POST_relays_or_normalises_witness:
  "snd (POST (sample_runtime (Inr \<lparr>up_status = 503, up_json = Inr JNull\<rparr>)) (sample_request ''AaB03x''))
     = Inr \<lparr>resp_status = 503, resp_body = JObj [(''error'', JStr ''API responded with status: 503'')]\<rparr>
   \<and> snd (POST (sample_runtime (Inr \<lparr>up_status = 200, up_json = Inr (JObj [(''predictions'', JArr [])])\<rparr>))
            (sample_request ''AaB03x''))
     = Inr \<lparr>resp_status = 200, resp_body = JObj [(''predictions'', JArr [])]\<rparr>
   \<and> snd (POST (sample_runtime (Inl (JsError (Some ''fetch failed'')))) (sample_request ''AaB03x''))
     = Inr \<lparr>resp_status = 500, resp_body = JObj [(''error'', JStr ''fetch failed'')]\<rparr>
   \<and> snd (POST (sample_runtime (Inr \<lparr>up_status = 304, up_json = Inr JNull\<rparr>)) (sample_request ''AaB03x''))
     = Inr \<lparr>resp_status = 500, resp_body = JObj [(''error'', JStr ''Invalid response status code 304'')]\<rparr>"
proof (intro conjI)
  show "snd (POST (sample_runtime (Inr \<lparr>up_status = 503, up_json = Inr JNull\<rparr>)) (sample_request ''AaB03x''))
     = Inr \<lparr>resp_status = 503, resp_body = JObj [(''error'', JStr ''API responded with status: 503'')]\<rparr>"
    using POST_relays_or_normalises
      [where rt = "sample_runtime (Inr \<lparr>up_status = 503, up_json = Inr JNull\<rparr>)"
         and req = "sample_request ''AaB03x''" and fd = sample_form
         and resp = "\<lparr>up_status = 503, up_json = Inr JNull\<rparr>"]
    by (simp add: response_ok_def string_of_nat_503)
  show "snd (POST (sample_runtime (Inr \<lparr>up_status = 200, up_json = Inr (JObj [(''predictions'', JArr [])])\<rparr>))
            (sample_request ''AaB03x''))
     = Inr \<lparr>resp_status = 200, resp_body = JObj [(''predictions'', JArr [])]\<rparr>"
    using POST_relays_or_normalises
      [where rt = "sample_runtime (Inr \<lparr>up_status = 200, up_json = Inr (JObj [(''predictions'', JArr [])])\<rparr>)"
         and req = "sample_request ''AaB03x''" and fd = sample_form
         and resp = "\<lparr>up_status = 200, up_json = Inr (JObj [(''predictions'', JArr [])])\<rparr>"
         and data = "JObj [(''predictions'', JArr [])]"]
    by (simp add: response_ok_def)
  show "snd (POST (sample_runtime (Inl (JsError (Some ''fetch failed'')))) (sample_request ''AaB03x''))
     = Inr \<lparr>resp_status = 500, resp_body = JObj [(''error'', JStr ''fetch failed'')]\<rparr>"
    using POST_relays_or_normalises
      [where rt = "sample_runtime (Inl (JsError (Some ''fetch failed'')))"
         and req = "sample_request ''AaB03x''" and fd = sample_form
         and e = "JsError (Some ''fetch failed'')"]
    by (simp add: or_else_def)
  show "snd (POST (sample_runtime (Inr \<lparr>up_status = 304, up_json = Inr JNull\<rparr>)) (sample_request ''AaB03x''))
     = Inr \<lparr>resp_status = 500, resp_body = JObj [(''error'', JStr ''Invalid response status code 304'')]\<rparr>"
    using POST_relays_or_normalises
      [where rt = "sample_runtime (Inr \<lparr>up_status = 304, up_json = Inr JNull\<rparr>)"
         and req = "sample_request ''AaB03x''" and fd = sample_form
         and resp = "\<lparr>up_status = 304, up_json = Inr JNull\<rparr>"
         and e = "JsError (Some ''Invalid response status code 304'')"]
    by (simp add: response_ok_def or_else_def sample_init_error)
qed

text \<open>
  Claim C3 as stated relays every non-success status of the upstream service. For an
  upstream 304, and for an upstream 600, \<open>NextResponse.json\<close> throws inside the \<open>try\<close> block, and
  the handler answers 500 instead of the upstream status.
\<close>

theorem POST_status_not_relayed_counterexample:
  "\<not> response_ok \<lparr>up_status = 304, up_json = Inr JNull\<rparr>
   \<and> snd (POST (sample_runtime (Inr \<lparr>up_status = 304, up_json = Inr JNull\<rparr>)) (sample_request ''AaB03x''))
     = Inr \<lparr>resp_status = 500, resp_body = JObj [(''error'', JStr ''Invalid response status code 304'')]\<rparr>
   \<and> \<not> response_ok \<lparr>up_status = 600, up_json = Inr JNull\<rparr>
   \<and> snd (POST (sample_runtime (Inr \<lparr>up_status = 600, up_json = Inr JNull\<rparr>)) (sample_request ''AaB03x''))
     = Inr \<lparr>resp_status = 500,
            resp_body = JObj [(''error'',
              JStr ''init[\"status\"] must be in the range of 200 to 599, inclusive.'')]\<rparr>"
  by (simp add: response_ok_def POST_not_ok_refused [where fd = sample_form] caught_error_body_def
      or_else_def sample_init_error)

text \<open>
  The handler looks at a request only through \<open>request.formData()\<close>: two requests that parse to
  the same form data lead to the same calls and the same response, whatever their bytes.
\<close>

lemma POST_depends_on_form:
  assumes "formData rt a = formData rt b"
  shows "POST rt a = POST rt b"
  unfolding POST_def POST_try_def assms ..

lemma same_form_same_bytes:
  assumes "formData rt a = formData rt b"
  shows "forwarded_bytes rt a = forwarded_bytes rt b"
  unfolding forwarded_bytes_def POST_depends_on_form [OF assms] ..

lemma POST_calls: "formData rt req = Inr fd \<Longrightarrow> fst (POST rt req) = [upstream_call fd]"
  by (simp add: POST_def POST_try_def split: sum.splits prod.splits)

text \<open>
  Claim C4, amended. For every incoming request that \<open>request.formData()\<close> parses, the handler
  issues exactly one call, an HTTP POST to the fixed upstream URL, and its body is the parsed
  form data, unmodified; the bytes sent are the platform's encoding of that form data.
\<close>

theorem POST_forwards_parsed_form:
  assumes "formData rt req = Inr fd"
  shows "fst (POST rt req) =
           [\<lparr>fetch_url = ''https://welding-defects-production.up.railway.app/predict'',
             fetch_method = ''POST'', fetch_body = fd\<rparr>]
         \<and> forwarded_bytes rt req = [encodeFormData rt fd]"
  using assms by (simp add: forwarded_bytes_def POST_calls upstream_call_def UPSTREAM_URL_def)

theorem POST_forwards_parsed_form_witness:
  "fst (POST (sample_runtime (Inl (JsError None))) (sample_request ''XyZ'')) =
     [\<lparr>fetch_url = ''https://welding-defects-production.up.railway.app/predict'',
       fetch_method = ''POST'', fetch_body = sample_form\<rparr>]"
  using POST_forwards_parsed_form
    [where rt = "sample_runtime (Inl (JsError None))" and req = "sample_request ''XyZ''" and fd = sample_form]
  by simp


lemma multipart_body_boundary: "multipart_body (c # cs) ! 2 = c"
  by (simp add: multipart_body_def)

lemma sample_bodies_differ: "multipart_body ''formdata-undici-0'' \<noteq> multipart_body ''XyZ''"
proof
  assume "multipart_body ''formdata-undici-0'' = multipart_body ''XyZ''"
  then have "multipart_body ''formdata-undici-0'' ! 2 = multipart_body ''XyZ'' ! 2"
    by simp
  then show False
    by (simp only: multipart_body_boundary) simp
qed


text \<open>
  Claim C4 as stated asks for the bytes of the incoming body to be the bytes sent upstream.
  The handler parses the body and passes the form data on, so two bodies that differ only in
  their multipart boundary are sent as the same bytes: on the sample platform the two sample
  requests cannot both be forwarded byte for byte.
\<close>

theorem POST_byte_for_byte_counterexample:
  "\<not> (forwarded_bytes (sample_runtime (Inr \<lparr>up_status = 200, up_json = Inr JNull\<rparr>)) (sample_request ''AaB03x'')
        = [raw_body (sample_request ''AaB03x'')]
      \<and> forwarded_bytes (sample_runtime (Inr \<lparr>up_status = 200, up_json = Inr JNull\<rparr>)) (sample_request ''XyZ'')
        = [raw_body (sample_request ''XyZ'')])"
proof -
  have "forwarded_bytes (sample_runtime (Inr \<lparr>up_status = 200, up_json = Inr JNull\<rparr>)) (sample_request ''XyZ'')
        = [multipart_body ''formdata-undici-0'']"
    by (simp add: forwarded_bytes_def POST_calls [where fd = sample_form] upstream_call_def sample_encode)
  moreover have "raw_body (sample_request ''XyZ'') = multipart_body ''XyZ''"
    by (simp add: sample_request_def)
  ultimately show ?thesis
    using sample_bodies_differ by simp
qed

section \<open>Properties of the analysis routine and the verdict\<close>

lemma toLowerCase_includes_iff:
  "str_includes (toLowerCase s) pat \<longleftrightarrow> (\<exists>u w v. s = u @ w @ v \<and> toLowerCase w = pat)"
proof
  assume "str_includes (toLowerCase s) pat"
  then obtain a b where "map toLowerChar s = a @ pat @ b"
    unfolding str_includes_iff toLowerCase_def by blast
  then have "\<exists>u r. s = u @ r \<and> a = map toLowerChar u \<and> pat @ b = map toLowerChar r"
    by (simp add: map_eq_append_conv)
  then obtain u r where s: "s = u @ r" and r: "pat @ b = map toLowerChar r"
    by blast
  from r have "\<exists>w v. r = w @ v \<and> pat = map toLowerChar w \<and> b = map toLowerChar v"
    by (simp add: append_eq_map_conv)
  then obtain w v where "r = w @ v" and "map toLowerChar w = pat"
    by auto
  with s show "\<exists>u w v. s = u @ w @ v \<and> toLowerCase w = pat"
    unfolding toLowerCase_def by blast
next
  assume "\<exists>u w v. s = u @ w @ v \<and> toLowerCase w = pat"
  then obtain u w v where "s = u @ w @ v" and "toLowerCase w = pat" by blast
  then have "toLowerCase s = toLowerCase u @ pat @ toLowerCase v"
    by (simp add: toLowerCase_def)
  then show "str_includes (toLowerCase s) pat"
    unfolding str_includes_iff by blast
qed

lemma hasBadWeld_iff:
  "hasBadWeld preds \<longleftrightarrow>
     (\<exists>p \<in> set preds. \<exists>u w v. pred_class p = u @ w @ v \<and> toLowerCase w = ''bad'')"
  by (simp add: hasBadWeld_def list_ex_iff toLowerCase_includes_iff)

lemma run_processImage:
  "run [res] (processImage url f s) =
     Some ((case res of
              Resolved ps \<Rightarrow>
                s\<lparr>objectURLs := insert url (objectURLs s), imageURL := Some url, predictions := [],
                  imageSize := None, error := None, isLoading := True, scanAnimation := True,
                  predictions := (case ps of Some l \<Rightarrow> l | None \<Rightarrow> [])\<rparr>
            | Rejected err \<Rightarrow>
                s\<lparr>objectURLs := insert url (objectURLs s), imageURL := Some url, predictions := [],
                  imageSize := None, error := None, isLoading := True, scanAnimation := True,
                  error := Some (failure_value err)\<rparr>)\<lparr>isLoading := False\<rparr>)"
  by (simp add: processImage_def Let_def)

lemma pending_processImage:
  "pending (processImage url f s) =
     Some (s\<lparr>objectURLs := insert url (objectURLs s), imageURL := Some url, predictions := [],
             imageSize := None, error := None, isLoading := True, scanAnimation := True\<rparr>,
           \<lparr>post_url = ''/api/model'', post_form = [(''file'', FieldFile f)],
            post_content_type = ''multipart/form-data''\<rparr>)"
  by (simp add: processImage_def Let_def)

text \<open>
  Claim C2. Every invocation of the analysis routine, directly, through a file upload or
  through a camera capture, reaches its request to \<open>/api/model\<close> in a state in which the
  predictions are the empty list and the image dimensions are \<open>null\<close>: both are cleared before
  the request is issued, hence before it resolves.
\<close>

theorem processImage_clears_before_request:
  "(\<exists>s1 q. pending (processImage url f s) = Some (s1, q)
       \<and> predictions s1 = [] \<and> imageSize s1 = None \<and> post_url q = ''/api/model'')
   \<and> (\<exists>s1 q. pending (handleFileUpload url (Some f) s) = Some (s1, q)
       \<and> predictions s1 = [] \<and> imageSize s1 = None \<and> post_url q = ''/api/model'')
   \<and> (\<exists>s1 q. pending (capture_callback url (Some blob) s) = Some (s1, q)
       \<and> predictions s1 = [] \<and> imageSize s1 = None \<and> post_url q = ''/api/model'')"
  by (simp add: pending_processImage handleFileUpload_def capture_callback_def)

text \<open>
  C2 on a page that still shows the prediction and the dimensions of an earlier image.
\<close>

theorem processImage_clears_before_request_witness:
  "map_option (\<lambda>(s1, q). (predictions s1, imageSize s1, post_url q))
     (pending (processImage ''blob:weld'' sample_file
        (initial_page\<lparr>predictions := [sample_prediction ''Bad_Weld''],
                      imageSize := Some \<lparr>width = 320, height = 240, naturalWidth = 640, naturalHeight = 480\<rparr>\<rparr>)))
   = Some ([], None, ''/api/model'')"
  using processImage_clears_before_request
    [of "''blob:weld''" sample_file
        "initial_page\<lparr>predictions := [sample_prediction ''Bad_Weld''],
                      imageSize := Some \<lparr>width = 320, height = 240, naturalWidth = 640, naturalHeight = 480\<rparr>\<rparr>"]
  by auto

text \<open>
  Claim C1, amended. For every successful analysis that returns at least one prediction, the
  verdict is \<open>Defects Detected\<close> if and only if some returned class label has a part that
  lower-cases to \<open>bad\<close>; otherwise it is \<open>No Defects\<close>.
\<close>

theorem verdict_of_nonempty_analysis:
  assumes "preds \<noteq> []"
  shows "\<exists>s'. run [Resolved (Some preds)] (processImage url f s) = Some s'
           \<and> predictions s' = preds
           \<and> (overallResult s' = Some ''Defects Detected'' \<longleftrightarrow>
                (\<exists>p \<in> set preds. \<exists>u w v. pred_class p = u @ w @ v \<and> toLowerCase w = ''bad''))
           \<and> (\<not> (\<exists>p \<in> set preds. \<exists>u w v. pred_class p = u @ w @ v \<and> toLowerCase w = ''bad'') \<longrightarrow>
                overallResult s' = Some ''No Defects'')"
proof -
  have bad: "(\<exists>p \<in> set preds. \<exists>u w v. pred_class p = u @ w @ v \<and> toLowerCase w = ''bad'')
               \<longleftrightarrow> hasBadWeld preds"
    by (rule hasBadWeld_iff [symmetric])
  show ?thesis
    unfolding bad using assms
    by (simp add: run_processImage overallResult_def getOverallResult_def)
qed

text \<open>
  Claim C8. On the empty prediction list, and only there, \<open>getOverallResult\<close> returns \<open>null\<close>. A
  successful response without a \<open>predictions\<close> field is stored as the empty list and leaves no
  verdict, and so does one with an empty list. A verdict badge exists only when there is at
  least one prediction; with none, neither \<open>Defects Detected\<close> nor \<open>No Defects\<close> is shown.
\<close>

theorem no_verdict_without_predictions:
  "getOverallResult [] = None
   \<and> (getOverallResult preds = None \<longleftrightarrow> preds = [])
   \<and> (\<exists>s'. run [Resolved None] (processImage url f s) = Some s'
         \<and> predictions s' = [] \<and> overallResult s' = None \<and> verdict_badge s' = None)
   \<and> (\<exists>s'. run [Resolved (Some [])] (processImage url f s) = Some s'
         \<and> predictions s' = [] \<and> overallResult s' = None \<and> verdict_badge s' = None)
   \<and> (verdict_badge s \<noteq> None \<longrightarrow> predictions s \<noteq> [])
   \<and> (predictions s = [] \<longrightarrow>
        verdict_badge s \<noteq> Some ''Defects Detected'' \<and> verdict_badge s \<noteq> Some ''No Defects'')"
  by (auto simp add: run_processImage overallResult_def getOverallResult_def verdict_badge_def truthy_def)

text \<open>
  C1 amended, on an analysis that returns the one prediction \<open>Bad_Weld\<close>.
\<close>

theorem verdict_of_nonempty_analysis_witness:
  "[sample_prediction ''Bad_Weld''] \<noteq> []
   \<and> map_option overallResult
        (run [Resolved (Some [sample_prediction ''Bad_Weld''])]
           (processImage ''blob:weld'' sample_file initial_page))
     = Some (Some ''Defects Detected'')"
proof -
  have ne: "[sample_prediction ''Bad_Weld''] \<noteq> []"
    by simp
  have "pred_class (sample_prediction ''Bad_Weld'') = [] @ ''Bad'' @ ''_Weld'' \<and> toLowerCase ''Bad'' = ''bad''"
    by (simp add: sample_prediction_def toLowerCase_def toLowerChar_def)
  then have bad: "\<exists>p \<in> set [sample_prediction ''Bad_Weld''].
                    \<exists>u w v. pred_class p = u @ w @ v \<and> toLowerCase w = ''bad''"
    by (meson list.set_intros(1))
  from verdict_of_nonempty_analysis [OF ne, of "''blob:weld''" sample_file initial_page] bad
  show ?thesis
    by auto
qed

text \<open>
  Claim C1 as stated gives every successful analysis one of the two verdicts. A successful
  analysis that returns the empty list has no label with \<open>bad\<close>, yet its verdict is not
  \<open>No Defects\<close>: there is none.
\<close>

theorem verdict_of_empty_analysis_counterexample:
  "\<not> (map_option overallResult
         (run [Resolved (Some [])] (processImage ''blob:weld'' sample_file initial_page))
       = Some (Some (if hasBadWeld [] then ''Defects Detected'' else ''No Defects'')))"
  by (simp add: run_processImage overallResult_def getOverallResult_def)

text \<open>
  C8 on a page that shows one acceptable weld (a badge, and a prediction) and on the initial
  page (no prediction, and no badge).
\<close>

theorem no_verdict_without_predictions_witness:
  "verdict_badge (initial_page\<lparr>imageURL := Some ''blob:weld'', predictions := [sample_prediction ''Good_Weld'']\<rparr>)
     = Some ''No Defects''
   \<and> predictions (initial_page\<lparr>imageURL := Some ''blob:weld'', predictions := [sample_prediction ''Good_Weld'']\<rparr>) \<noteq> []
   \<and> predictions initial_page = []
   \<and> verdict_badge initial_page = None"
proof -
  have shown: "verdict_badge (initial_page\<lparr>imageURL := Some ''blob:weld'', predictions := [sample_prediction ''Good_Weld'']\<rparr>)
     = Some ''No Defects''"
    by (simp add: verdict_badge_def results_shown_def overallResult_def getOverallResult_def
        hasBadWeld_def truthy_def initial_page_def sample_prediction_def toLowerCase_def toLowerChar_def)
  have empty: "predictions initial_page = []"
    by (simp add: initial_page_def)
  have none: "verdict_badge initial_page = None"
    by (simp add: verdict_badge_def results_shown_def truthy_def initial_page_def)
  from shown
    no_verdict_without_predictions
      [where s = "initial_page\<lparr>imageURL := Some ''blob:weld'', predictions := [sample_prediction ''Good_Weld'']\<rparr>"]
  have filled: "predictions (initial_page\<lparr>imageURL := Some ''blob:weld'', predictions := [sample_prediction ''Good_Weld'']\<rparr>) \<noteq> []"
    by simp
  from empty no_verdict_without_predictions [where s = initial_page]
  have "verdict_badge initial_page \<noteq> Some ''No Defects''"
    by simp
  with shown filled empty none show ?thesis
    by simp
qed

lemma resume_processImage:
  "resume (processImage url f s) res now =
     Finished ((case res of
                  Resolved ps \<Rightarrow> now\<lparr>predictions := (case ps of Some l \<Rightarrow> l | None \<Rightarrow> [])\<rparr>
                | Rejected err \<Rightarrow> now\<lparr>error := Some (failure_value err)\<rparr>)\<lparr>isLoading := False\<rparr>)"
  by (simp add: processImage_def Let_def)

lemma produced_processImage:
  "produced (processImage url f s) =
     s\<lparr>objectURLs := insert url (objectURLs s), imageURL := Some url, predictions := [],
       imageSize := None, error := None, isLoading := True, scanAnimation := True\<rparr>"
  by (simp add: processImage_def Let_def)

lemma failure_value_truthy: "js_truthy (failure_value err)"
  by (simp add: failure_value_def or_else_nonempty split: option.splits)

lemma failure_value_no_response:
  "response_data err = None \<Longrightarrow>
   failure_value err = JStr (or_else (axios_message err) ''Failed to analyze image'')"
  by (simp add: failure_value_def)

lemma failure_value_route_error:
  "m \<noteq> [] \<Longrightarrow> resp_body r = JObj [(''error'', JStr m)] \<Longrightarrow> failure_value (axios_reject r) = JStr m"
  by (simp add: failure_value_def axios_reject_def)

text \<open>
  Every answer of the route that \<open>axios\<close> rejects carries a non-empty string under \<open>error\<close>.
\<close>

lemma POST_rejected_body:
  assumes "snd (POST rt req) = Inr r" and "\<not> axios_accepts r"
  shows "\<exists>m. m \<noteq> [] \<and> resp_body r = JObj [(''error'', JStr m)]"
proof -
  have caught: "\<exists>m. m \<noteq> [] \<and> caught_error_body e = JObj [(''error'', JStr m)]" for e
    by (simp add: caught_error_body_def or_else_nonempty)
  have status: "\<exists>m. m \<noteq> [] \<and> status_error_body st = JObj [(''error'', JStr m)]" for st
    by (simp add: status_error_body_def)
  show ?thesis
  proof (cases "formData rt req")
    case (Inl e)
    with assms(1) caught [of e] show ?thesis
      by (auto simp add: POST_formData_throws)
  next
    case fd: (Inr fd)
    show ?thesis
    proof (cases "fetch rt (upstream_call fd)")
      case (Inl e)
      with fd assms(1) caught [of e] show ?thesis
        by (auto simp add: POST_fetch_throws)
    next
      case resp: (Inr resp)
      show ?thesis
      proof (cases "response_ok resp")
        case True
        show ?thesis
        proof (cases "up_json resp")
          case (Inl e)
          with fd resp True assms(1) caught [of e] show ?thesis
            by (auto simp add: POST_json_throws)
        next
          case (Inr data)
          with fd resp True assms show ?thesis
            by (auto simp add: POST_ok axios_accepts_def)
        qed
      next
        case False
        show ?thesis
        proof (cases "up_status resp < 200 \<or> 599 < up_status resp \<or> up_status resp = 304")
          case True
          from POST_not_ok_refused [OF fd resp False True] assms(1)
            caught [of "responseInitError rt (up_status resp)"]
          show ?thesis by auto
        next
          case f: False
          then have "200 \<le> up_status resp" "up_status resp \<le> 599" "up_status resp \<noteq> 304"
            by simp_all
          from POST_not_ok [OF fd resp False this] assms(1) status [of "up_status resp"]
          show ?thesis by auto
        qed
      qed
    qed
  qed
qed

text \<open>
  Claim C5, amended. For every analysis whose request fails, the routine stores an error
  value that is never empty (the \<open>error\<close> field of the response body when that is truthy, else
  the error's message, else a fixed text), clears the loading flag and leaves the predictions
  as they are at that moment: empty, as cleared at the start, when no other analysis has
  stored predictions since. The stored value is a non-empty string when no response arrived
  and when the response is an answer of the proxy route. When the failure is the proxy route
  relaying an upstream non-success status from 300 to 599 other than 304 (a 503, say),
  \<open>axios\<close> rejects the answer and the stored message contains that status code.
\<close>

theorem failed_analysis_reports_error:
  "(\<exists>s'. resume (processImage url f s) (Rejected err) now = Finished s'
        \<and> error s' = Some (failure_value err) \<and> js_truthy (failure_value err)
        \<and> \<not> isLoading s' \<and> predictions s' = predictions now)
   \<and> (\<exists>s'. run [Rejected err] (processImage url f s) = Some s'
        \<and> error s' = Some (failure_value err) \<and> \<not> isLoading s' \<and> predictions s' = [])
   \<and> (response_data err = None \<longrightarrow> (\<exists>m. failure_value err = JStr m \<and> m \<noteq> []))
   \<and> (snd (POST rt req) = Inr r \<and> \<not> axios_accepts r \<longrightarrow>
        (\<exists>m. failure_value (axios_reject r) = JStr m \<and> m \<noteq> []))
   \<and> (formData rt req = Inr fd \<and> fetch rt (upstream_call fd) = Inr resp \<and> \<not> response_ok resp
        \<and> 200 \<le> up_status resp \<and> up_status resp \<le> 599 \<and> up_status resp \<noteq> 304 \<longrightarrow>
        (\<exists>r'. snd (POST rt req) = Inr r' \<and> \<not> axios_accepts r'
           \<and> (\<exists>s' m. run [Rejected (axios_reject r')] (processImage url f s) = Some s'
                 \<and> error s' = Some (JStr m) \<and> str_includes m (string_of_nat (up_status resp))
                 \<and> \<not> isLoading s' \<and> predictions s' = [])))"
proof (intro conjI impI)
  show "\<exists>s'. resume (processImage url f s) (Rejected err) now = Finished s'
        \<and> error s' = Some (failure_value err) \<and> js_truthy (failure_value err)
        \<and> \<not> isLoading s' \<and> predictions s' = predictions now"
    by (simp add: resume_processImage failure_value_truthy)
next
  show "\<exists>s'. run [Rejected err] (processImage url f s) = Some s'
        \<and> error s' = Some (failure_value err) \<and> \<not> isLoading s' \<and> predictions s' = []"
    by (simp add: run_processImage)
next
  assume "response_data err = None"
  then show "\<exists>m. failure_value err = JStr m \<and> m \<noteq> []"
    by (simp add: failure_value_no_response or_else_nonempty)
next
  assume "snd (POST rt req) = Inr r \<and> \<not> axios_accepts r"
  then obtain m where "m \<noteq> []" and "resp_body r = JObj [(''error'', JStr m)]"
    using POST_rejected_body by blast
  then show "\<exists>m. failure_value (axios_reject r) = JStr m \<and> m \<noteq> []"
    using failure_value_route_error by blast
next
  assume relayed: "formData rt req = Inr fd \<and> fetch rt (upstream_call fd) = Inr resp \<and> \<not> response_ok resp
        \<and> 200 \<le> up_status resp \<and> up_status resp \<le> 599 \<and> up_status resp \<noteq> 304"
  let ?m = "''API responded with status: '' @ string_of_nat (up_status resp)"
  let ?r = "\<lparr>resp_status = up_status resp, resp_body = status_error_body (up_status resp)\<rparr>"
  from relayed have answer: "snd (POST rt req) = Inr ?r"
    by (simp add: POST_not_ok [where fd = fd and resp = resp])
  from relayed have rejected: "\<not> axios_accepts ?r"
    by (auto simp add: axios_accepts_def response_ok_def)
  have "?m \<noteq> []" and "resp_body ?r = JObj [(''error'', JStr ?m)]"
    by (simp_all add: status_error_body_def)
  then have stored: "failure_value (axios_reject ?r) = JStr ?m"
    by (rule failure_value_route_error)
  have inc: "str_includes ?m (string_of_nat (up_status resp))"
    by (rule str_includes_suffix)
  have "\<exists>s' m. run [Rejected (axios_reject ?r)] (processImage url f s) = Some s'
                 \<and> error s' = Some (JStr m) \<and> str_includes m (string_of_nat (up_status resp))
                 \<and> \<not> isLoading s' \<and> predictions s' = []"
    using inc by (simp add: run_processImage stored del: str_includes.simps)
  with answer rejected
  show "\<exists>r'. snd (POST rt req) = Inr r' \<and> \<not> axios_accepts r'
           \<and> (\<exists>s' m. run [Rejected (axios_reject r')] (processImage url f s) = Some s'
                 \<and> error s' = Some (JStr m) \<and> str_includes m (string_of_nat (up_status resp))
                 \<and> \<not> isLoading s' \<and> predictions s' = [])"
    by blast
qed

lemma string_of_nat_200: "string_of_nat 200 = ''200''"
  by (simp add: string_of_nat.simps)

lemma string_of_nat_500: "string_of_nat 500 = ''500''"
  by (simp add: string_of_nat.simps)

lemma sample_503:
  "snd (POST (sample_runtime (Inr \<lparr>up_status = 503, up_json = Inr JNull\<rparr>)) (sample_request ''AaB03x''))
     = Inr \<lparr>resp_status = 503, resp_body = JObj [(''error'', JStr ''API responded with status: 503'')]\<rparr>"
  by (simp add: POST_not_ok [where fd = sample_form] response_ok_def status_error_body_def
      string_of_nat_503)

text \<open>
  C5 amended, on an upstream 503, starting from a page that still shows an earlier prediction,
  and on a failure without a response.
\<close>

theorem failed_analysis_reports_error_witness:
  "\<not> axios_accepts \<lparr>resp_status = 503, resp_body = JObj [(''error'', JStr ''API responded with status: 503'')]\<rparr>
   \<and> map_option (\<lambda>s'. (error s', isLoading s', predictions s'))
        (run [Rejected (axios_reject
                \<lparr>resp_status = 503, resp_body = JObj [(''error'', JStr ''API responded with status: 503'')]\<rparr>)]
           (processImage ''blob:weld'' sample_file
              (initial_page\<lparr>predictions := [sample_prediction ''Bad_Weld'']\<rparr>)))
     = Some (Some (JStr ''API responded with status: 503''), False, [])
   \<and> str_includes ''API responded with status: 503'' ''503''
   \<and> failure_value \<lparr>response_data = None, axios_message = Some ''Network Error''\<rparr> = JStr ''Network Error''"
proof -
  let ?rt = "sample_runtime (Inr \<lparr>up_status = 503, up_json = Inr JNull\<rparr>)"
  let ?r = "\<lparr>resp_status = 503, resp_body = JObj [(''error'', JStr ''API responded with status: 503'')]\<rparr>"
  let ?s = "initial_page\<lparr>predictions := [sample_prediction ''Bad_Weld'']\<rparr>"
  let ?net = "\<lparr>response_data = None, axios_message = Some ''Network Error''\<rparr>"
  note T = failed_analysis_reports_error
      [where rt = ?rt and req = "sample_request ''AaB03x''" and fd = sample_form
         and resp = "\<lparr>up_status = 503, up_json = Inr JNull\<rparr>" and r = ?r
         and url = "''blob:weld''" and f = sample_file and s = ?s and err = ?net]
  have nok: "\<not> response_ok \<lparr>up_status = 503, up_json = Inr JNull\<rparr>"
    by (simp add: response_ok_def)
  from T nok sample_503
  have "\<exists>r'. Inr ?r = Inr r' \<and> \<not> axios_accepts r'
           \<and> (\<exists>s' m. run [Rejected (axios_reject r')] (processImage ''blob:weld'' sample_file ?s) = Some s'
                 \<and> error s' = Some (JStr m) \<and> str_includes m (string_of_nat 503)
                 \<and> \<not> isLoading s' \<and> predictions s' = [])"
    by simp
  then have rej: "\<not> axios_accepts ?r"
    and "\<exists>s' m. run [Rejected (axios_reject ?r)] (processImage ''blob:weld'' sample_file ?s) = Some s'
                 \<and> error s' = Some (JStr m) \<and> str_includes m ''503''
                 \<and> \<not> isLoading s' \<and> predictions s' = []"
    by (auto simp add: string_of_nat_503)
  then obtain s' m where
    r: "run [Rejected (axios_reject ?r)] (processImage ''blob:weld'' sample_file ?s) = Some s'"
    and e: "error s' = Some (JStr m)" and inc: "str_includes m ''503''"
    and l: "\<not> isLoading s'" and p: "predictions s' = []"
    by blast
  have "failure_value (axios_reject ?r) = JStr ''API responded with status: 503''"
    by (rule failure_value_route_error) simp_all
  with r e have m: "m = ''API responded with status: 503''"
    by (auto simp add: run_processImage)
  from T have "\<exists>m. failure_value ?net = JStr m \<and> m \<noteq> []"
    by simp
  then have net: "failure_value ?net = JStr ''Network Error''"
    by (simp add: failure_value_no_response or_else_def)
  from rej r e inc l p m net show ?thesis
    by simp
qed

text \<open>
  Claim C5 as stated puts the upstream status code into the message of every failed request
  and leaves the predictions empty after every failure. When the upstream service answers 200
  with a body that is not JSON, the route answers 500 with the parser's message, the request
  fails, and the stored message contains neither status. And when two uploads overlap and
  the first is answered after the second has started, the failure of the second leaves the
  predictions of the first on the page, under the image of the second.
\<close>

theorem failed_analysis_counterexample:
  "snd (POST (sample_runtime (Inr \<lparr>up_status = 200, up_json = Inl (JsError (Some ''Unexpected end of JSON input''))\<rparr>))
          (sample_request ''AaB03x''))
     = Inr \<lparr>resp_status = 500, resp_body = JObj [(''error'', JStr ''Unexpected end of JSON input'')]\<rparr>
   \<and> \<not> axios_accepts \<lparr>resp_status = 500, resp_body = JObj [(''error'', JStr ''Unexpected end of JSON input'')]\<rparr>
   \<and> map_option error
        (run [Rejected (axios_reject
                \<lparr>resp_status = 500, resp_body = JObj [(''error'', JStr ''Unexpected end of JSON input'')]\<rparr>)]
           (processImage ''blob:weld'' sample_file initial_page))
     = Some (Some (JStr ''Unexpected end of JSON input''))
   \<and> \<not> str_includes ''Unexpected end of JSON input'' (string_of_nat 200)
   \<and> \<not> str_includes ''Unexpected end of JSON input'' (string_of_nat 500)
   \<and> predictions overlapping_uploads = [sample_prediction ''Bad_Weld'']
   \<and> imageURL overlapping_uploads = Some ''blob:second''
   \<and> error overlapping_uploads = Some (JStr ''Network Error'')"
proof -
  have answer: "snd (POST (sample_runtime (Inr \<lparr>up_status = 200, up_json = Inl (JsError (Some ''Unexpected end of JSON input''))\<rparr>))
               (sample_request ''AaB03x''))
     = Inr \<lparr>resp_status = 500, resp_body = JObj [(''error'', JStr ''Unexpected end of JSON input'')]\<rparr>"
    by (simp add: POST_json_throws [where fd = sample_form] response_ok_def
        caught_error_body_def or_else_def)
  have stored: "failure_value (axios_reject
      \<lparr>resp_status = 500, resp_body = JObj [(''error'', JStr ''Unexpected end of JSON input'')]\<rparr>)
      = JStr ''Unexpected end of JSON input''"
    by (rule failure_value_route_error) simp_all
  have net: "failure_value \<lparr>response_data = None, axios_message = Some ''Network Error''\<rparr>
      = JStr ''Network Error''"
    by (simp add: failure_value_no_response or_else_def)
  have overlap: "predictions overlapping_uploads = [sample_prediction ''Bad_Weld'']
      \<and> imageURL overlapping_uploads = Some ''blob:second''
      \<and> error overlapping_uploads = Some (JStr ''Network Error'')"
    by (simp add: overlapping_uploads_def Let_def resume_processImage produced_processImage net)
  have "\<not> str_includes ''Unexpected end of JSON input'' ''200''"
    and "\<not> str_includes ''Unexpected end of JSON input'' ''500''"
    by simp_all
  with answer stored overlap show ?thesis
    by (simp add: run_processImage axios_accepts_def string_of_nat_200 string_of_nat_500)
qed

section \<open>Properties of the camera handlers\<close>

lemma stop_tracks_eq: "stop_tracks stream live = live - set (stream_tracks stream)"
proof -
  have "fold (\<lambda>track l. l - {track}) ts live = live - set ts" for ts
    by (induction ts arbitrary: live) auto
  then show ?thesis by (simp add: stop_tracks_def)
qed

lemma release_video_attached [simp]: "attached_stream (release_video s) = None"
  by (simp add: release_video_def attached_stream_def split: option.splits)

lemma release_video_videoRef:
  "videoRef (release_video s) = map_option (\<lambda>v. v\<lparr>srcObject := None\<rparr>) (videoRef s)"
  by (simp add: release_video_def split: option.splits)

lemma release_video_liveTracks:
  "liveTracks (release_video s) =
     liveTracks s - (case attached_stream s of None \<Rightarrow> {} | Some stream \<Rightarrow> set (stream_tracks stream))"
  by (simp add: release_video_def attached_stream_def stop_tracks_eq split: option.splits)

lemma release_video_fields [simp]:
  "isCameraActive (release_video s) = isCameraActive s"
  "cameraFacingMode (release_video s) = cameraFacingMode s"
  "error (release_video s) = error s"
  "predictions (release_video s) = predictions s"
  by (simp_all add: release_video_def split: option.splits)




lemma requests_switchCamera_fail:
  assumes "videoRef s = Some v"
  shows "requests [Inl e, r2] (switchCamera s) =
           [Facing (if cameraFacingMode s = User then Environment else User), Facing (cameraFacingMode s)]"
  using assms
  by (simp add: switchCamera_def Let_def release_video_videoRef switchCamera_fallback_def
      split: sum.splits option.splits)

lemma run_switchCamera_fail_ok:
  assumes "videoRef s = Some v"
  shows "run [Inl e, Inr fb] (switchCamera s) =
           Some ((release_video s)
                   \<lparr>cameraFacingMode := (if cameraFacingMode s = User then Environment else User),
                    error := Some (JStr (''Could not access ''
                                   @ facing_name (if cameraFacingMode s = User then Environment else User)
                                   @ '' camera.'')),
                    liveTracks := liveTracks (release_video s) \<union> set (stream_tracks fb),
                    videoRef := Some (v\<lparr>srcObject := Some fb\<rparr>)\<rparr>)"
  using assms
  by (simp add: switchCamera_def Let_def release_video_videoRef switchCamera_fallback_def
      assign_srcObject_def deliver_def)

lemma run_switchCamera_fail_fail:
  assumes "videoRef s = Some v"
  shows "run [Inl e, Inl e2] (switchCamera s) =
           Some ((release_video s)
                   \<lparr>cameraFacingMode := (if cameraFacingMode s = User then Environment else User),
                    error := Some (JStr (''Could not access ''
                                   @ facing_name (if cameraFacingMode s = User then Environment else User)
                                   @ '' camera.'')),
                    isCameraActive := False\<rparr>)"
  using assms
  by (simp add: switchCamera_def Let_def release_video_videoRef switchCamera_fallback_def)


text \<open>
  Claim C7, amended. For every call to \<open>switchCamera\<close> with the video element mounted in which
  acquiring the opposite facing mode fails, the operation next requests the facing mode
  recorded before the call. When that request succeeds, its stream is attached and live and
  the camera view stays as it was; when it fails too, no stream is attached and the camera
  view is closed.
\<close>

theorem switchCamera_falls_back:
  assumes "videoRef s = Some v"
  shows "requests [Inl e, r2] (switchCamera s) =
           [Facing (if cameraFacingMode s = User then Environment else User), Facing (cameraFacingMode s)]
         \<and> (\<forall>fb. r2 = Inr fb \<longrightarrow>
               (\<exists>s'. run [Inl e, r2] (switchCamera s) = Some s'
                  \<and> attached_stream s' = Some fb
                  \<and> set (stream_tracks fb) \<subseteq> liveTracks s'
                  \<and> isCameraActive s' = isCameraActive s))
         \<and> (\<forall>e2. r2 = Inl e2 \<longrightarrow>
               (\<exists>s'. run [Inl e, r2] (switchCamera s) = Some s'
                  \<and> attached_stream s' = None
                  \<and> \<not> isCameraActive s'))"
proof (intro conjI allI impI)
  show "requests [Inl e, r2] (switchCamera s) =
           [Facing (if cameraFacingMode s = User then Environment else User), Facing (cameraFacingMode s)]"
    by (rule requests_switchCamera_fail [OF assms])
next
  fix fb
  assume "r2 = Inr fb"
  then show "\<exists>s'. run [Inl e, r2] (switchCamera s) = Some s'
                  \<and> attached_stream s' = Some fb
                  \<and> set (stream_tracks fb) \<subseteq> liveTracks s'
                  \<and> isCameraActive s' = isCameraActive s"
    by (simp add: run_switchCamera_fail_ok [OF assms] attached_stream_def)
next
  fix e2
  assume "r2 = Inl e2"
  moreover have "attached_stream ((release_video s)
                   \<lparr>cameraFacingMode := (if cameraFacingMode s = User then Environment else User),
                    error := Some (JStr (''Could not access ''
                                   @ facing_name (if cameraFacingMode s = User then Environment else User)
                                   @ '' camera.'')),
                    isCameraActive := False\<rparr>) = attached_stream (release_video s)"
    by (simp add: attached_stream_def)
  ultimately show "\<exists>s'. run [Inl e, r2] (switchCamera s) = Some s'
                  \<and> attached_stream s' = None
                  \<and> \<not> isCameraActive s'"
    by (simp add: run_switchCamera_fail_fail [OF assms])
qed

lemma filming_page_videoRef: "videoRef filming_page = Some \<lparr>srcObject = Some front_stream\<rparr>"
  by (simp add: filming_page_def)

text \<open>
  C7 amended, on a page that films with the front camera and has no back camera.
\<close>

theorem switchCamera_falls_back_witness:
  "videoRef filming_page = Some \<lparr>srcObject = Some front_stream\<rparr>
   \<and> requests [Inl (JsError (Some ''NotFoundError'')), Inr \<lparr>stream_tracks = [2], stream_facing = User\<rparr>]
        (switchCamera filming_page) = [Facing Environment, Facing User]
   \<and> map_option attached_stream
        (run [Inl (JsError (Some ''NotFoundError'')), Inr \<lparr>stream_tracks = [2], stream_facing = User\<rparr>]
           (switchCamera filming_page))
     = Some (Some \<lparr>stream_tracks = [2], stream_facing = User\<rparr>)"
proof -
  have mode: "cameraFacingMode filming_page = User"
    by (simp add: filming_page_def initial_page_def)
  from switchCamera_falls_back
     [OF filming_page_videoRef, of "JsError (Some ''NotFoundError'')"
        "Inr \<lparr>stream_tracks = [2], stream_facing = User\<rparr>"]
  show ?thesis
    by (auto simp add: mode filming_page_videoRef)
qed

text \<open>
  Claim C7 as stated leaves the previous mode's stream active whenever the requested mode
  cannot be acquired. The previous stream is stopped before anything is requested, so when
  the request for the previous mode fails as well, the call ends with no stream attached, no
  live track and the camera view closed.
\<close>

theorem switchCamera_no_stream_counterexample:
  "map_option (\<lambda>s'. (attached_stream s', isCameraActive s', liveTracks s'))
     (run [Inl (JsError (Some ''NotFoundError'')), Inl (JsError (Some ''NotReadableError''))]
        (switchCamera filming_page))
   = Some (None, False, {})"
proof -
  have "attached_stream filming_page = Some front_stream"
    by (simp add: filming_page_def attached_stream_def)
  then have "liveTracks (release_video filming_page) = {}"
    by (simp add: release_video_liveTracks filming_page_def front_stream_def)
  moreover have "attached_stream ((release_video filming_page)
                   \<lparr>cameraFacingMode := m, error := x, isCameraActive := False\<rparr>) = None" for m x
    using release_video_attached [of filming_page] by (simp add: attached_stream_def)
  ultimately show ?thesis
    by (simp add: run_switchCamera_fail_fail [OF filming_page_videoRef])
qed

lemma facing_title_neq: "m \<noteq> m' \<Longrightarrow> facing_title m \<noteq> facing_title m'"
  by (cases m; cases m') (simp_all add: facing_title_def)

lemma pending_switchCamera:
  "pending (switchCamera s) =
     (case videoRef s of
        None \<Rightarrow> None
      | Some v \<Rightarrow>
          Some ((release_video s)\<lparr>cameraFacingMode := (if cameraFacingMode s = User then Environment else User)\<rparr>,
                Facing (if cameraFacingMode s = User then Environment else User)))"
  by (simp add: switchCamera_def Let_def release_video_videoRef split: option.splits)

lemma run_Awaiting:
  "run rs (Awaiting s q k) = (case rs of [] \<Rightarrow> None | r # rs' \<Rightarrow> run rs' (k r s))"
  by (cases rs) simp_all

lemma run_switchCamera_mode:
  "run rs (switchCamera s) = Some s' \<Longrightarrow>
   cameraFacingMode s' = (if cameraFacingMode s = User then Environment else User)"
  by (auto simp add: switchCamera_def Let_def release_video_videoRef switchCamera_fallback_def
      assign_srcObject_def deliver_def run_Awaiting
      split: option.splits list.splits sum.splits if_splits)

lemma run_switchCamera_total:
  "\<exists>s'. run [r1, r2] (switchCamera s) = Some s'"
  by (auto simp add: switchCamera_def Let_def release_video_videoRef switchCamera_fallback_def
      assign_srcObject_def deliver_def split: option.splits sum.splits)

text \<open>
  Claim C9. \<open>switchCamera\<close> records the new facing mode before it requests the new stream: the
  state at its first \<open>await\<close> already holds the new mode, and every run ends with the new mode
  recorded, whatever the requests answer (two answers always suffice for a run to end). So
  when the new mode cannot be acquired and the fallback delivers a stream of the prior mode,
  the recorded mode differs from the facing mode of the attached stream, and the title of the
  camera card names the wrong camera.
\<close>

theorem switchCamera_records_new_mode_first:
  "(\<forall>s1 q. pending (switchCamera s) = Some (s1, q) \<longrightarrow>
       cameraFacingMode s1 = (if cameraFacingMode s = User then Environment else User)
       \<and> q = Facing (if cameraFacingMode s = User then Environment else User))
   \<and> (\<exists>s'. run [r1, r2] (switchCamera s) = Some s'
         \<and> cameraFacingMode s' = (if cameraFacingMode s = User then Environment else User))
   \<and> (\<forall>rs s'. run rs (switchCamera s) = Some s' \<longrightarrow>
         cameraFacingMode s' = (if cameraFacingMode s = User then Environment else User))
   \<and> (videoRef s = Some v \<and> stream_facing fb = cameraFacingMode s \<longrightarrow>
        (\<exists>s'. run [Inl e, Inr fb] (switchCamera s) = Some s'
           \<and> attached_stream s' = Some fb
           \<and> cameraFacingMode s' \<noteq> stream_facing fb
           \<and> (isCameraActive s \<longrightarrow>
                camera_title s' = Some (facing_title (if cameraFacingMode s = User then Environment else User))
                \<and> camera_title s' \<noteq> Some (facing_title (stream_facing fb)))))"
proof (intro conjI allI impI)
  fix s1 q
  assume "pending (switchCamera s) = Some (s1, q)"
  then show "cameraFacingMode s1 = (if cameraFacingMode s = User then Environment else User)"
    and "q = Facing (if cameraFacingMode s = User then Environment else User)"
    by (auto simp add: pending_switchCamera split: option.splits)
next
  show "\<exists>s'. run [r1, r2] (switchCamera s) = Some s'
         \<and> cameraFacingMode s' = (if cameraFacingMode s = User then Environment else User)"
    using run_switchCamera_total [of r1 r2 s] run_switchCamera_mode by blast
next
  fix rs s'
  assume "run rs (switchCamera s) = Some s'"
  then show "cameraFacingMode s' = (if cameraFacingMode s = User then Environment else User)"
    by (rule run_switchCamera_mode)
next
  assume h: "videoRef s = Some v \<and> stream_facing fb = cameraFacingMode s"
  then have v: "videoRef s = Some v" and f: "stream_facing fb = cameraFacingMode s"
    by simp_all
  have neq: "(if cameraFacingMode s = User then Environment else User) \<noteq> cameraFacingMode s"
    by (cases "cameraFacingMode s") simp_all
  show "\<exists>s'. run [Inl e, Inr fb] (switchCamera s) = Some s'
           \<and> attached_stream s' = Some fb
           \<and> cameraFacingMode s' \<noteq> stream_facing fb
           \<and> (isCameraActive s \<longrightarrow>
                camera_title s' = Some (facing_title (if cameraFacingMode s = User then Environment else User))
                \<and> camera_title s' \<noteq> Some (facing_title (stream_facing fb)))"
    using neq facing_title_neq [OF neq]
    by (simp add: run_switchCamera_fail_ok [OF v] attached_stream_def camera_title_def f)
qed

text \<open>
  C9 on a page that films with the front camera and has no back camera: after the failed
  switch the front camera films again under the title \<open>Back Camera\<close>.
\<close>

theorem switchCamera_records_new_mode_first_witness:
  "pending (switchCamera filming_page) \<noteq> None
   \<and> map_option (\<lambda>s'. (cameraFacingMode s', attached_stream s', camera_title s'))
        (run [Inl (JsError (Some ''NotFoundError'')), Inr \<lparr>stream_tracks = [2], stream_facing = User\<rparr>]
           (switchCamera filming_page))
     = Some (Environment, Some \<lparr>stream_tracks = [2], stream_facing = User\<rparr>, Some ''Back Camera'')"
proof -
  have mode: "cameraFacingMode filming_page = User"
    by (simp add: filming_page_def initial_page_def)
  have active: "isCameraActive filming_page"
    by (simp add: filming_page_def initial_page_def)
  have honoured: "stream_facing \<lparr>stream_tracks = [2], stream_facing = User\<rparr> = cameraFacingMode filming_page"
    by (simp add: mode)
  have p: "pending (switchCamera filming_page) \<noteq> None"
    by (simp add: pending_switchCamera filming_page_videoRef)
  from switchCamera_records_new_mode_first
     [where s = filming_page and v = "\<lparr>srcObject = Some front_stream\<rparr>"
        and fb = "\<lparr>stream_tracks = [2], stream_facing = User\<rparr>"
        and e = "JsError (Some ''NotFoundError'')"
        and ?r1.0 = "Inl (JsError (Some ''NotFoundError''))"
        and ?r2.0 = "Inr \<lparr>stream_tracks = [2], stream_facing = User\<rparr>"]
     filming_page_videoRef honoured active
  obtain s' where
    r: "run [Inl (JsError (Some ''NotFoundError'')), Inr \<lparr>stream_tracks = [2], stream_facing = User\<rparr>]
               (switchCamera filming_page) = Some s'"
    and a: "attached_stream s' = Some \<lparr>stream_tracks = [2], stream_facing = User\<rparr>"
    and m: "cameraFacingMode s' \<noteq> stream_facing \<lparr>stream_tracks = [2], stream_facing = User\<rparr>"
    and t: "camera_title s' =
              Some (facing_title (if cameraFacingMode filming_page = User then Environment else User))"
    by blast
  from m have "cameraFacingMode s' = Environment"
    by (cases "cameraFacingMode s'") simp_all
  with r a t p show ?thesis
    by (simp add: mode facing_title_def)
qed

lemma startCamera_unmounted:
  "videoRef s = None \<Longrightarrow> startCamera ua s = Finished (s\<lparr>isCameraActive := True\<rparr>)"
  by (simp add: startCamera_def Let_def)

lemma pending_startCamera:
  "pending (startCamera ua s) =
     (case videoRef s of
        None \<Rightarrow> None
      | Some v \<Rightarrow> Some (s\<lparr>isCameraActive := True\<rparr>,
                       if isMobile ua then FacingIdeal Environment else Facing User))"
  by (simp add: startCamera_def Let_def split: option.splits)

text \<open>
  Claim C10. \<open>startCamera\<close> sets the camera-active flag before it looks at \<open>videoRef.current\<close>:
  at its first \<open>await\<close> the flag is set, and it reaches an \<open>await\<close>, that is, requests a media
  stream, exactly when the reference is not null. A call made while the reference is null
  requests nothing and ends at once: the error is as before, the flag is true, so the camera
  card is rendered, and no stream is attached.
\<close>

theorem startCamera_without_video_element:
  "(\<forall>s1 q. pending (startCamera ua s) = Some (s1, q) \<longrightarrow> isCameraActive s1)
   \<and> (pending (startCamera ua s) \<noteq> None \<longleftrightarrow> videoRef s \<noteq> None)
   \<and> (videoRef s = None \<longrightarrow>
         requests rs (startCamera ua s) = []
         \<and> (\<exists>s'. run rs (startCamera ua s) = Some s'
               \<and> s' = s\<lparr>isCameraActive := True\<rparr>
               \<and> error s' = error s
               \<and> isCameraActive s'
               \<and> attached_stream s' = None
               \<and> camera_title s' \<noteq> None))"
proof (intro conjI allI impI)
  fix s1 q
  assume "pending (startCamera ua s) = Some (s1, q)"
  then show "isCameraActive s1"
    by (auto simp add: pending_startCamera split: option.splits)
next
  show "pending (startCamera ua s) \<noteq> None \<longleftrightarrow> videoRef s \<noteq> None"
    by (simp add: pending_startCamera split: option.splits)
next
  assume "videoRef s = None"
  then show "requests rs (startCamera ua s) = []"
    by (simp add: startCamera_unmounted)
next
  assume "videoRef s = None"
  then show "\<exists>s'. run rs (startCamera ua s) = Some s'
               \<and> s' = s\<lparr>isCameraActive := True\<rparr>
               \<and> error s' = error s
               \<and> isCameraActive s'
               \<and> attached_stream s' = None
               \<and> camera_title s' \<noteq> None"
    by (simp add: startCamera_unmounted attached_stream_def camera_title_def)
qed

text \<open>
  C10 on the initial page, where no video element is mounted, and on a page that has one.
\<close>

theorem startCamera_without_video_element_witness:
  "videoRef initial_page = None
   \<and> requests [Inr front_stream] (startCamera ''Mozilla/5.0 (Linux; Android 14)'' initial_page) = []
   \<and> map_option (\<lambda>s'. (isCameraActive s', error s', attached_stream s', liveTracks s'))
        (run [Inr front_stream] (startCamera ''Mozilla/5.0 (Linux; Android 14)'' initial_page))
     = Some (True, None, None, {})
   \<and> pending (startCamera ''Mozilla/5.0 (Linux; Android 14)'' filming_page) \<noteq> None"
proof -
  have v: "videoRef initial_page = None"
    by (simp add: initial_page_def)
  have e: "error initial_page = None" and l: "liveTracks initial_page = {}"
    by (simp_all add: initial_page_def)
  from startCamera_without_video_element
     [where s = initial_page and ua = "''Mozilla/5.0 (Linux; Android 14)''" and rs = "[Inr front_stream]"] v
  have "requests [Inr front_stream] (startCamera ''Mozilla/5.0 (Linux; Android 14)'' initial_page) = []
      \<and> (\<exists>s'. run [Inr front_stream] (startCamera ''Mozilla/5.0 (Linux; Android 14)'' initial_page) = Some s'
               \<and> s' = initial_page\<lparr>isCameraActive := True\<rparr>
               \<and> error s' = error initial_page
               \<and> isCameraActive s'
               \<and> attached_stream s' = None
               \<and> camera_title s' \<noteq> None)"
    by blast
  moreover from startCamera_without_video_element
     [where s = filming_page and ua = "''Mozilla/5.0 (Linux; Android 14)''"] filming_page_videoRef
  have "pending (startCamera ''Mozilla/5.0 (Linux; Android 14)'' filming_page) \<noteq> None"
    by simp
  ultimately show ?thesis
    using v e l by auto
qed

end
